theory Spec2Isabelle
  imports Main "HOL-Library.Word"
begin

section \<open>Synchronised AGIPD virtual data set: a model of \<^verbatim>\<open>offline/vds.py\<close>\<close>

text \<open>
  The script reads, for each of the detector modules, a sorted list of HDF5 files, finds the
  train-id range of the run, and writes one output file holding the canonical per-frame
  \<^verbatim>\<open>trainId\<close>, \<^verbatim>\<open>cellId\<close> and \<^verbatim>\<open>pulseId\<close> arrays and a virtual data set that refers to the
  frames of the module files.

  Train ids, pulse ids and flat frame positions are NumPy \<^verbatim>\<open>u8\<close> values (\<open>64 word\<close>, arithmetic
  wraps), cell ids are \<^verbatim>\<open>u2\<close> values (\<open>16 word\<close>), counts and indices are natural numbers.
  The two constants the script fixes, \<^verbatim>\<open>npulses = 128\<close> and \<^verbatim>\<open>chunk_size = 32\<close>, are parameters
  \<open>np\<close> and \<open>cs\<close> of the functions below; \<open>main\<close> instantiates them.
\<close>

subsection \<open>Data\<close>

type_synonym u64 = "64 word"
type_synonym u16 = "16 word"

text \<open>
  What the script reads of one module file: \<^verbatim>\<open>INDEX/trainId\<close>, and the ravelled
  \<^verbatim>\<open>image/trainId\<close>, \<^verbatim>\<open>image/cellId\<close> and \<^verbatim>\<open>image/pulseId\<close> of the module. The image arrays are
  row-aligned with \<^verbatim>\<open>image/data\<close>, whose first dimension is the length of \<open>image_tid\<close>.
\<close>

record h5file =
  index_tid :: "u64 list"
  image_tid :: "u64 list"
  image_cid :: "u16 list"
  image_pid :: "u64 list"

text \<open>
  How a run can stop early. \<open>ValueError\<close>: \<^verbatim>\<open>tid.max()\<close> of an empty array; \<open>IndexError\<close>:
  \<^verbatim>\<open>glob(...)[0]\<close> when module 0 has no file; \<open>TypeError\<close>: a masked write to an HDF5 data set
  whose value count differs from the selection; \<open>Mismatch\<close>: the message and \<^verbatim>\<open>return\<close> of the
  chunk check.
\<close>

datatype error = ValueError | IndexError | TypeError | Mismatch

text \<open>
  One entry of the virtual layout, \<^verbatim>\<open>layout_data[m, chunk_ind] = VirtualSource(dset)[chunk_sel]\<close>:
  the selected rows of file \<open>vm_file\<close> of module \<open>vm_module\<close>, in row order, are mapped onto the
  destinations \<open>vm_dest\<close>, in ascending order.
\<close>

record vmap =
  vm_module :: nat
  vm_dest :: "nat list"
  vm_file :: nat
  vm_rows :: "nat list"

record state =
  outdset_cid :: "u16 list"
  outdset_pid :: "u64 list"
  layout_data :: "vmap list"

text \<open>The output file; \<open>data\<close> is the virtual data set, present once it has been created.\<close>

record outfile =
  trainId :: "u64 list"
  cellId :: "u16 list"
  pulseId :: "u64 list"
  data :: "vmap list option"

subsection \<open>Constants\<close>

definition MAX_TRAINS_IN_FILE :: u64 where
  "MAX_TRAINS_IN_FILE = 260"

definition maxsize :: u64 where
  "maxsize = 9223372036854775807"

definition npulses :: nat where
  "npulses = 128"

definition chunk_size :: nat where
  "chunk_size = 32"

definition fill16 :: u16 where
  "fill16 = 65535"

definition fill64 :: u64 where
  "fill64 = 65535"

subsection \<open>NumPy helpers\<close>

definition amin :: "u64 list \<Rightarrow> u64" where
  "amin tid = fold min (tl tid) (hd tid)"

definition amax :: "u64 list \<Rightarrow> u64" where
  "amax tid = fold max (tl tid) (hd tid)"

definition count_true :: "bool list \<Rightarrow> nat" where
  "count_true bs = length (filter (\<lambda>b. b) bs)"

definition in1d :: "'a list \<Rightarrow> 'a list \<Rightarrow> bool list" where
  "in1d xs ys = map (\<lambda>x. x \<in> set ys) xs"

definition np_where :: "bool list \<Rightarrow> nat list" where
  "np_where bs = filter (\<lambda>i. bs ! i) [0..<length bs]"

definition mask_select :: "bool list \<Rightarrow> 'a list \<Rightarrow> 'a list" where
  "mask_select bs xs = map snd (filter fst (zip bs xs))"

definition mask_of :: "nat \<Rightarrow> nat list \<Rightarrow> bool list" where
  "mask_of n idx = map (\<lambda>i. i \<in> set idx) [0..<n]"

text \<open>
  \<^verbatim>\<open>dset[mask] = vals\<close> on an h5py data set: an empty selection writes nothing, a selection
  whose size differs from the number of values raises, otherwise the values go to the selected
  positions in ascending order.
\<close>

definition mask_assign :: "bool list \<Rightarrow> 'a list \<Rightarrow> 'a list \<Rightarrow> error + 'a list" where
  "mask_assign msk vals arr =
     (if count_true msk = 0 then Inr arr
      else if count_true msk \<noteq> length vals then Inl TypeError
      else Inr (fold (\<lambda>(i, v) a. a[i := v]) (zip (np_where msk) vals) arr))"

subsection \<open>The train-id range of the run (lines 38 to 62)\<close>

text \<open>
  The loop over the files of one module. The state is \<open>(tmin, tmax, ftrain)\<close>. The last file
  of the list is the one with no file after it.
\<close>

fun scan_files :: "u64 list list \<Rightarrow> u64 \<times> u64 \<times> u64 \<Rightarrow> error + u64 \<times> u64 \<times> u64" where
  "scan_files [] s = Inr s"
| "scan_files (tid # rest) (tmin, tmax, ftrain) =
     (if tid = [] then Inl ValueError
      else if amax tid - amin tid > MAX_TRAINS_IN_FILE then
        scan_files rest
          (if amin tid > 0 then min tmin (amin tid) else tmin,
           if rest = [] then max tmax (last tid) else tmax,
           ftrain)
      else
        scan_files rest
          (min tmin (amin tid), max tmax (amax tid), min ftrain (min tmin (amin tid))))"

text \<open>
  \<^verbatim>\<open>tmax - tmin\<close> after the files of a module. \<open>tmin\<close> is still the Python integer
  \<^verbatim>\<open>sys.maxsize\<close> exactly when its value is \<open>maxsize\<close>, and \<open>tmax\<close> is still the Python integer 0
  exactly when its value is 0, because \<^verbatim>\<open>min\<close> and \<^verbatim>\<open>max\<close> replace their first argument only by
  a strictly smaller (larger) one. Two NumPy \<^verbatim>\<open>uint64\<close> scalars subtract modulo \<open>2 ^ 64\<close>; with a
  Python integer operand the difference is the signed one.
\<close>

definition span_diff :: "u64 \<Rightarrow> u64 \<Rightarrow> int" where
  "span_diff tmax tmin =
     (if tmax \<noteq> 0 \<and> tmin \<noteq> maxsize then uint (tmax - tmin) else uint tmax - uint tmin)"

text \<open>The loop over the modules. The state is \<open>(ntrains, ftrain)\<close>.\<close>

fun scan_modules :: "u64 list list list \<Rightarrow> int \<times> u64 \<Rightarrow> error + int \<times> u64" where
  "scan_modules [] s = Inr s"
| "scan_modules (flist # ms) (ntrains, ftrain) =
     (case scan_files flist (maxsize, 0, ftrain) of
        Inl e \<Rightarrow> Inl e
      | Inr (tmin, tmax, ftrain') \<Rightarrow>
          scan_modules ms (max ntrains (span_diff tmax tmin), ftrain'))"

text \<open>The result is \<open>(ftrain, ntrains)\<close>, with the margin of 4 trains added.\<close>

definition timeline :: "u64 list list list \<Rightarrow> error + u64 \<times> int" where
  "timeline mods =
     (case scan_modules mods (- 1, maxsize) of
        Inl e \<Rightarrow> Inl e
      | Inr (ntrains, ftrain) \<Rightarrow> Inr (ftrain, ntrains + 4))"

subsection \<open>The canonical arrays (lines 63 to 65)\<close>

definition all_trains :: "nat \<Rightarrow> u64 \<Rightarrow> nat \<Rightarrow> u64 list" where
  "all_trains np ftrain ntrains =
     concat (map (\<lambda>i. replicate np (ftrain + of_nat i)) [0..<ntrains])"

definition all_cells :: "nat \<Rightarrow> nat \<Rightarrow> u64 list" where
  "all_cells np ntrains = concat (replicate ntrains (map of_nat [0..<np]))"

definition all_flatid :: "nat \<Rightarrow> u64 \<Rightarrow> nat \<Rightarrow> u64 list" where
  "all_flatid np ftrain ntrains =
     map2 (\<lambda>t c. (t - ftrain) * of_nat np + c) (all_trains np ftrain ntrains) (all_cells np ntrains)"

subsection \<open>Validation of the rows of one file (lines 94 to 105)\<close>

definition flat_ids :: "nat \<Rightarrow> u64 \<Rightarrow> u64 list \<Rightarrow> u16 list \<Rightarrow> u64 list" where
  "flat_ids np ftrain tid cid = map2 (\<lambda>t c. (t - ftrain) * of_nat np + ucast c) tid cid"

definition sel_range :: "int \<Rightarrow> u64 list \<Rightarrow> bool list" where
  "sel_range ltrain tid = map (\<lambda>t. 0 < t \<and> uint t < ltrain) tid"

definition first_index :: "u64 list \<Rightarrow> u64 \<Rightarrow> nat" where
  "first_index tid v = length (takeWhile (\<lambda>t. t \<noteq> v) tid)"

text \<open>
  \<^verbatim>\<open>np.unique(tid, return_counts=True, return_index=True)[1:]\<close>: for each distinct value, in
  ascending order, the index of its first occurrence and the number of its occurrences.
\<close>

definition np_unique :: "u64 list \<Rightarrow> (nat \<times> nat) list" where
  "np_unique tid = map (\<lambda>v. (first_index tid v, count_list tid v)) (sort (remdups tid))"

definition where_eq :: "u64 list \<Rightarrow> u64 \<Rightarrow> nat list" where
  "where_eq tid v = filter (\<lambda>j. tid ! j = v) [0..<length tid]"

definition set_false :: "nat list \<Rightarrow> bool list \<Rightarrow> bool list" where
  "set_false js sel = fold (\<lambda>j s. s[j := False]) js sel"

definition dedup :: "nat \<Rightarrow> u64 list \<Rightarrow> bool list \<Rightarrow> bool list" where
  "dedup np tid sel =
     fold (\<lambda>i s. set_false (drop np (where_eq tid (tid ! i))) s)
       (map fst (filter (\<lambda>(i, n). n > np) (np_unique tid))) sel"

definition validator :: "nat \<Rightarrow> int \<Rightarrow> u64 list \<Rightarrow> bool list" where
  "validator np ltrain tid = dedup np tid (sel_range ltrain tid)"

subsection \<open>The chunks of one file (lines 111 to 128)\<close>

definition num_chunks :: "nat \<Rightarrow> nat \<Rightarrow> nat" where
  "num_chunks nrows cs = (nrows + cs - 1) div cs"

definition chunk_sel :: "bool list \<Rightarrow> nat \<Rightarrow> nat \<Rightarrow> bool list" where
  "chunk_sel sel st en = map (\<lambda>j. st \<le> j \<and> j < en \<and> sel ! j) [0..<length sel]"

definition chunk_ind :: "u64 list \<Rightarrow> u64 list \<Rightarrow> bool list \<Rightarrow> nat list" where
  "chunk_ind aflat flatid csel = np_where (in1d aflat (mask_select csel flatid))"

text \<open>
  The loop over the chunks of file \<open>k\<close> of module \<open>m\<close>; \<open>aflat\<close> is \<^verbatim>\<open>all_flatid\<close>. A chunk whose
  counts differ ends the run; a chunk with no selected row adds nothing.
\<close>

fun map_chunks ::
  "nat \<Rightarrow> nat \<Rightarrow> nat \<Rightarrow> u64 list \<Rightarrow> u64 list \<Rightarrow> bool list \<Rightarrow> nat list \<Rightarrow> vmap list
     \<Rightarrow> error + vmap list" where
  "map_chunks cs m k aflat flatid sel [] layout = Inr layout"
| "map_chunks cs m k aflat flatid sel (chunk # chunks) layout =
     (let st = chunk * cs;
          en = min (length sel) ((chunk + 1) * cs);
          csel = chunk_sel sel st en;
          cind = chunk_ind aflat flatid csel
      in if count_true csel \<noteq> length cind then Inl Mismatch
         else if count_true csel = 0 then map_chunks cs m k aflat flatid sel chunks layout
         else map_chunks cs m k aflat flatid sel chunks
                (layout @ [\<lparr>vm_module = m, vm_dest = cind, vm_file = k, vm_rows = np_where csel\<rparr>]))"

subsection \<open>One file (lines 89 to 137)\<close>

text \<open>
  On an early stop the state returned is the one the output file holds at that moment; the
  layout is only in memory until the end of the run.
\<close>

definition process_file ::
  "nat \<Rightarrow> nat \<Rightarrow> u64 \<Rightarrow> nat \<Rightarrow> int \<Rightarrow> nat \<Rightarrow> nat \<Rightarrow> h5file \<Rightarrow> state \<Rightarrow> error \<times> state + state" where
  "process_file np cs ftrain ntrains ltrain m k f st =
     (let tid = image_tid f;
          cid = image_cid f;
          flatid = flat_ids np ftrain tid cid;
          sel = validator np ltrain tid
      in if count_true sel = 0 then Inr st
         else
           let tid' = mask_select sel tid;
               indices = np_where (in1d (all_trains np ftrain ntrains) tid')
           in case map_chunks cs m k (all_flatid np ftrain ntrains) flatid sel
                     [0..<num_chunks (length sel) cs] (layout_data st) of
                Inl e \<Rightarrow> Inl (e, st)
              | Inr layout' \<Rightarrow>
                  (let st1 = st\<lparr>layout_data := layout'\<rparr>;
                       sel_indices = mask_of (length (all_trains np ftrain ntrains)) indices
                   in (case mask_assign sel_indices (mask_select sel cid) (outdset_cid st1) of
                         Inl e \<Rightarrow> Inl (e, st1)
                       | Inr cids \<Rightarrow>
                           (case mask_assign sel_indices (mask_select sel (image_pid f))
                                   (outdset_pid st1) of
                              Inl e \<Rightarrow> Inl (e, st1\<lparr>outdset_cid := cids\<rparr>)
                            | Inr pids \<Rightarrow>
                                Inr (st1\<lparr>outdset_cid := cids, outdset_pid := pids\<rparr>)))))"

subsection \<open>All files of all modules (lines 87 to 89)\<close>

fun run_files ::
  "nat \<Rightarrow> nat \<Rightarrow> u64 \<Rightarrow> nat \<Rightarrow> int \<Rightarrow> nat \<Rightarrow> nat \<Rightarrow> h5file list \<Rightarrow> state \<Rightarrow> error \<times> state + state" where
  "run_files np cs ftrain ntrains ltrain m k [] st = Inr st"
| "run_files np cs ftrain ntrains ltrain m k (f # fs) st =
     (case process_file np cs ftrain ntrains ltrain m k f st of
        Inl x \<Rightarrow> Inl x
      | Inr st' \<Rightarrow> run_files np cs ftrain ntrains ltrain m (Suc k) fs st')"

fun run_modules ::
  "nat \<Rightarrow> nat \<Rightarrow> u64 \<Rightarrow> nat \<Rightarrow> int \<Rightarrow> nat \<Rightarrow> h5file list list \<Rightarrow> state \<Rightarrow> error \<times> state + state" where
  "run_modules np cs ftrain ntrains ltrain m [] st = Inr st"
| "run_modules np cs ftrain ntrains ltrain m (flist # ms) st =
     (case run_files np cs ftrain ntrains ltrain m 0 flist st of
        Inl x \<Rightarrow> Inl x
      | Inr st' \<Rightarrow> run_modules np cs ftrain ntrains ltrain (Suc m) ms st')"

subsection \<open>The whole run\<close>

text \<open>
  \<open>vds np cs mods\<close> is the run on the modules' file lists \<open>mods\<close> (16 of them in the script).
  The result is how the run ended (\<open>None\<close>: it reached the end) and the output file it left
  behind (\<open>None\<close>: it stopped before the file was opened for writing).
\<close>

definition vds :: "nat \<Rightarrow> nat \<Rightarrow> h5file list list \<Rightarrow> error option \<times> outfile option" where
  "vds np cs mods =
     (case timeline (map (map index_tid) mods) of
        Inl e \<Rightarrow> (Some e, None)
      | Inr (ftrain, ntrains) \<Rightarrow>
          if mods = [] \<or> hd mods = [] then (Some IndexError, None)
          else
            let n = nat ntrains;
                ltrain = uint ftrain + ntrains;
                st0 = \<lparr>outdset_cid = replicate (n * np) fill16,
                       outdset_pid = replicate (n * np) fill64,
                       layout_data = []\<rparr>
            in (case run_modules np cs ftrain n ltrain 0 mods st0 of
                  Inl (e, st) \<Rightarrow>
                    (Some e,
                     Some \<lparr>trainId = all_trains np ftrain n, cellId = outdset_cid st,
                           pulseId = outdset_pid st, data = None\<rparr>)
                | Inr st \<Rightarrow>
                    (None,
                     Some \<lparr>trainId = all_trains np ftrain n, cellId = outdset_cid st,
                           pulseId = outdset_pid st, data = Some (layout_data st)\<rparr>)))"

definition main :: "h5file list list \<Rightarrow> error option \<times> outfile option" where
  "main mods = vds npulses chunk_size mods"

subsection \<open>Reading the output\<close>


subsection \<open>Notions used in the statements\<close>



text \<open>
  The selected rows of chunk \<open>chunk\<close>, in row order, and the destinations the script finds
  for them.
\<close>

definition chunk_rows :: "nat \<Rightarrow> bool list \<Rightarrow> nat \<Rightarrow> nat list" where
  "chunk_rows cs sel chunk =
     np_where (chunk_sel sel (chunk * cs) (min (length sel) ((chunk + 1) * cs)))"

definition chunk_dests :: "nat \<Rightarrow> u64 list \<Rightarrow> u64 list \<Rightarrow> bool list \<Rightarrow> nat \<Rightarrow> nat list" where
  "chunk_dests cs aflat flatid sel chunk =
     chunk_ind aflat flatid (chunk_sel sel (chunk * cs) (min (length sel) ((chunk + 1) * cs)))"

text \<open>The chunk check of the script passes for chunk \<open>chunk\<close>.\<close>

definition chunk_ok :: "nat \<Rightarrow> u64 list \<Rightarrow> u64 list \<Rightarrow> bool list \<Rightarrow> nat \<Rightarrow> bool" where
  "chunk_ok cs aflat flatid sel chunk \<longleftrightarrow>
     length (chunk_rows cs sel chunk) = length (chunk_dests cs aflat flatid sel chunk)"

text \<open>The layout entry of chunk \<open>chunk\<close> of file \<open>k\<close> of module \<open>m\<close>.\<close>

definition chunk_entry ::
  "nat \<Rightarrow> nat \<Rightarrow> nat \<Rightarrow> u64 list \<Rightarrow> u64 list \<Rightarrow> bool list \<Rightarrow> nat \<Rightarrow> vmap" where
  "chunk_entry cs m k aflat flatid sel chunk =
     \<lparr>vm_module = m, vm_dest = chunk_dests cs aflat flatid sel chunk, vm_file = k,
      vm_rows = chunk_rows cs sel chunk\<rparr>"

text \<open>The rows the validator keeps of a file, and the positions of its rows.\<close>

definition file_sel :: "nat \<Rightarrow> u64 \<Rightarrow> int \<Rightarrow> h5file \<Rightarrow> bool list" where
  "file_sel np ftrain ntrains f = validator np (uint ftrain + ntrains) (image_tid f)"

definition file_flatid :: "nat \<Rightarrow> u64 \<Rightarrow> h5file \<Rightarrow> u64 list" where
  "file_flatid np ftrain f = flat_ids np ftrain (image_tid f) (image_cid f)"

text \<open>The state before any file is processed.\<close>

definition start_state :: "nat \<Rightarrow> nat \<Rightarrow> state" where
  "start_state np n =
     \<lparr>outdset_cid = replicate (n * np) fill16, outdset_pid = replicate (n * np) fill64,
      layout_data = []\<rparr>"

text \<open>
  The state in which the run gets to file \<open>k\<close> of module \<open>m\<close>; \<open>None\<close> when it stops before,
  or when there is no such file.
\<close>

definition state_at :: "nat \<Rightarrow> nat \<Rightarrow> h5file list list \<Rightarrow> nat \<Rightarrow> nat \<Rightarrow> state option" where
  "state_at np cs mods m k =
     (case timeline (map (map index_tid) mods) of
        Inl e \<Rightarrow> None
      | Inr (ftrain, ntrains) \<Rightarrow>
          if mods = [] \<or> hd mods = [] \<or> \<not> m < length mods \<or> \<not> k < length (mods ! m) then None
          else
            (case run_modules np cs ftrain (nat ntrains) (uint ftrain + ntrains) 0 (take m mods)
                    (start_state np (nat ntrains)) of
               Inl x \<Rightarrow> None
             | Inr st1 \<Rightarrow>
                 (case run_files np cs ftrain (nat ntrains) (uint ftrain + ntrains) m 0
                         (take k (mods ! m)) st1 of
                    Inl x \<Rightarrow> None
                  | Inr st \<Rightarrow> Some st)))"

text \<open>
  A file with two rows of train 1000, both of cell 0: the two rows have the same position.
\<close>

definition dup_file :: h5file where
  "dup_file = \<lparr>index_tid = [1000], image_tid = [1000, 1000], image_cid = [0, 0],
                image_pid = [0, 1]\<rparr>"

section \<open>The validator\<close>

lemma length_set_false: "length (set_false js sel) = length sel"
  unfolding set_false_def by (induction js arbitrary: sel) auto


lemma fold_set_false_length:
  "length (fold (\<lambda>i s. set_false (g i) s) is sel) = length sel"
  by (induction "is" arbitrary: sel) (auto simp: length_set_false)








lemma validator_length: "length (validator np ltrain tid) = length tid"
  by (simp add: validator_def dedup_def fold_set_false_length sel_range_def)







text \<open>
  Claim C1. The validator tests \<open>0 < tid\<close> and \<open>tid < ltrain\<close> only. With one file
  \<open>[1000, 1001]\<close> for module 0 and one file \<open>[500, 1000, 1001]\<close> for module 1 the run starts
  at train 1000 and has 505 trains, and the row of train 500, below the first train, is kept.
\<close>

theorem validator_keeps_train_below_first:
  "timeline [[[1000, 1001]], [[500, 1000, 1001]]] = Inr (1000, 505)
   \<and> validator npulses (uint (1000 :: u64) + 505) [500, 1000, 1001] = [True, True, True]"
  by (simp add: timeline_def amin_def amax_def MAX_TRAINS_IN_FILE_def maxsize_def span_diff_def
      validator_def dedup_def sel_range_def np_unique_def first_index_def where_eq_def
      set_false_def npulses_def)

section \<open>The canonical positions\<close>

lemma length_all_trains: "length (all_trains np ftrain ntrains) = ntrains * np"
  unfolding all_trains_def by (induction ntrains) simp_all

lemma length_all_cells: "length (all_cells np ntrains) = ntrains * np"
  unfolding all_cells_def by (induction ntrains) simp_all

lemma length_all_flatid: "length (all_flatid np ftrain ntrains) = ntrains * np"
  by (simp add: all_flatid_def length_all_trains length_all_cells)

lemma block_div_mod:
  fixes f :: nat
  assumes "n * np \<le> f" and "f < n * np + np"
  shows "f div np = n" and "f mod np = f - n * np"
proof -
  obtain r where r: "f = n * np + r" "r < np"
    using assms by (metis add_diff_inverse_nat nat_add_left_cancel_less not_less)
  then show "f div np = n" by simp
  from r show "f mod np = f - n * np" by simp
qed

lemma all_trains_nth:
  "f < ntrains * np \<Longrightarrow> all_trains np ftrain ntrains ! f = ftrain + of_nat (f div np)"
proof (induction ntrains)
  case 0
  then show ?case by simp
next
  case (Suc n)
  have app: "all_trains np ftrain (Suc n) = all_trains np ftrain n @ replicate np (ftrain + of_nat n)"
    by (simp add: all_trains_def)
  show ?case
  proof (cases "f < n * np")
    case True
    with Suc.IH show ?thesis by (simp add: app nth_append length_all_trains)
  next
    case False
    then have "f div np = n" using Suc.prems block_div_mod(1) [of n np f] by simp
    with False Suc.prems show ?thesis by (simp add: app nth_append length_all_trains)
  qed
qed

lemma concat_replicate_snoc:
  "concat (replicate (Suc n) xs) = concat (replicate n xs) @ xs"
  by (induction n) simp_all

lemma all_cells_nth:
  "f < ntrains * np \<Longrightarrow> all_cells np ntrains ! f = of_nat (f mod np)"
proof (induction ntrains)
  case 0
  then show ?case by simp
next
  case (Suc n)
  have app: "all_cells np (Suc n) = all_cells np n @ map of_nat [0..<np]"
    unfolding all_cells_def by (rule concat_replicate_snoc)
  show ?case
  proof (cases "f < n * np")
    case True
    with Suc.IH show ?thesis by (simp add: app nth_append length_all_cells)
  next
    case False
    then have "f mod np = f - n * np" using Suc.prems block_div_mod(2) [of n np f] by simp
    with False Suc.prems show ?thesis by (simp add: app nth_append length_all_cells)
  qed
qed

lemma all_flatid_nth:
  assumes "f < ntrains * np"
  shows "all_flatid np ftrain ntrains ! f = of_nat f"
proof -
  have "all_flatid np ftrain ntrains ! f
          = (ftrain + of_nat (f div np) - ftrain) * of_nat np + (of_nat (f mod np) :: u64)"
    using assms by (simp add: all_flatid_def length_all_trains length_all_cells all_trains_nth all_cells_nth)
  also have "\<dots> = of_nat (f div np) * of_nat np + of_nat (f mod np)" by simp
  also have "\<dots> = of_nat (f div np * np + f mod np)"
    by (simp only: of_nat_add of_nat_mult)
  also have "\<dots> = of_nat f" by simp
  finally show ?thesis .
qed


lemma length_flat_ids: "length (flat_ids np ftrain tid cid) = min (length tid) (length cid)"
  by (simp add: flat_ids_def)









section \<open>The train-id range\<close>



lemma Min_insert_min:
  fixes a :: "'a :: linorder"
  assumes "finite S"
  shows "Min (insert (min a b) S) = Min (insert a (insert b S))"
  using assms by (cases "S = {}") (simp_all add: min.assoc)



















section \<open>The chunks of a file\<close>

lemma count_true_np_where: "count_true bs = length (np_where bs)"
proof -
  have "filter (\<lambda>b. b) (map (\<lambda>i. bs ! i) [0..<length bs])
          = map (\<lambda>i. bs ! i) (filter (\<lambda>i. bs ! i) [0..<length bs])"
    by (simp add: filter_map o_def)
  then have "length (filter (\<lambda>b. b) (map (\<lambda>i. bs ! i) [0..<length bs])) = length (np_where bs)"
    by (simp add: np_where_def)
  then show ?thesis by (simp add: count_true_def map_nth)
qed

lemma length_chunk_sel: "length (chunk_sel sel st en) = length sel"
  by (simp add: chunk_sel_def)

lemma np_where_chunk_sel:
  "np_where (chunk_sel sel st en) = filter (\<lambda>j. st \<le> j \<and> j < en \<and> sel ! j) [0..<length sel]"
  unfolding np_where_def length_chunk_sel
  by (rule filter_cong) (simp_all add: chunk_sel_def)

lemma chunk_rows_eq:
  "chunk_rows cs sel chunk
     = filter (\<lambda>j. chunk * cs \<le> j \<and> j < (chunk + 1) * cs \<and> sel ! j) [0..<length sel]"
  unfolding chunk_rows_def np_where_chunk_sel
  by (rule filter_cong) auto

lemma zip_as_map:
  "zip bs xs = map (\<lambda>i. (bs ! i, xs ! i)) [0..<min (length bs) (length xs)]"
  by (rule nth_equalityI) simp_all

lemma mask_select_eq:
  assumes "length xs = length bs"
  shows "mask_select bs xs = map (\<lambda>j. xs ! j) (np_where bs)"
proof -
  have "mask_select bs xs
          = map snd (filter fst (map (\<lambda>i. (bs ! i, xs ! i)) [0..<length bs]))"
    using assms by (simp add: mask_select_def zip_as_map [of bs xs])
  also have "\<dots> = map (\<lambda>j. xs ! j) (filter (\<lambda>i. bs ! i) [0..<length bs])"
    by (simp add: filter_map o_def)
  finally show ?thesis by (simp add: np_where_def)
qed

lemma np_where_in1d:
  "np_where (in1d xs ys) = filter (\<lambda>f. xs ! f \<in> set ys) [0..<length xs]"
  unfolding np_where_def by (rule filter_cong) (simp_all add: in1d_def)

lemma chunk_dests_eq:
  assumes "length flatid = length sel"
  shows "chunk_dests cs aflat flatid sel chunk
           = filter (\<lambda>f. aflat ! f \<in> (\<lambda>j. flatid ! j) ` set (chunk_rows cs sel chunk))
               [0..<length aflat]"
proof -
  let ?csel = "chunk_sel sel (chunk * cs) (min (length sel) ((chunk + 1) * cs))"
  have "set (mask_select ?csel flatid) = (\<lambda>j. flatid ! j) ` set (chunk_rows cs sel chunk)"
    using assms by (simp add: mask_select_eq length_chunk_sel chunk_rows_def)
  then show ?thesis
    unfolding chunk_dests_def chunk_ind_def np_where_in1d by simp
qed


lemma sorted_chunk_dests:
  "length flatid = length sel \<Longrightarrow> sorted_wrt (<) (chunk_dests cs aflat flatid sel chunk)"
  by (simp only: chunk_dests_eq) (rule sorted_wrt_filter, simp add: sorted_wrt_upt)

text \<open>The destinations of a set of positions in the canonical index.\<close>

lemma dests_all_flatid:
  assumes "ntrains * np \<le> 2 ^ 64"
  shows "{f. f < ntrains * np \<and> all_flatid np ftrain ntrains ! f \<in> F}
           = unat ` {w \<in> F. unat w < ntrains * np}"
proof (intro set_eqI iffI)
  fix f
  assume "f \<in> {f. f < ntrains * np \<and> all_flatid np ftrain ntrains ! f \<in> F}"
  then have f: "f < ntrains * np" "(of_nat f :: u64) \<in> F" by (auto simp: all_flatid_nth)
  then have "unat (of_nat f :: u64) = f" using assms by (simp add: unat_of_nat)
  with f show "f \<in> unat ` {w \<in> F. unat w < ntrains * np}" by force
next
  fix f
  assume "f \<in> unat ` {w \<in> F. unat w < ntrains * np}"
  then obtain w where "w \<in> F" "unat w < ntrains * np" "f = unat w" by blast
  then show "f \<in> {f. f < ntrains * np \<and> all_flatid np ftrain ntrains ! f \<in> F}"
    by (simp add: all_flatid_nth)
qed

lemma set_all_flatid:
  "set (all_flatid np ftrain ntrains) = of_nat ` {..<ntrains * np}"
proof -
  have "set (all_flatid np ftrain ntrains)
          = (\<lambda>f. all_flatid np ftrain ntrains ! f) ` {..<ntrains * np}"
    by (simp add: set_conv_nth length_all_flatid image_def lessThan_def) metis
  also have "\<dots> = of_nat ` {..<ntrains * np}"
    by (rule image_cong) (simp_all add: all_flatid_nth)
  finally show ?thesis .
qed

lemma in_set_all_flatid:
  assumes "ntrains * np \<le> 2 ^ 64"
  shows "w \<in> set (all_flatid np ftrain ntrains) \<longleftrightarrow> unat w < ntrains * np"
proof
  assume "w \<in> set (all_flatid np ftrain ntrains)"
  then obtain f where "f < ntrains * np" "w = of_nat f" by (auto simp: set_all_flatid)
  then show "unat w < ntrains * np" using assms by (simp add: unat_of_nat)
next
  assume "unat w < ntrains * np"
  then have "of_nat (unat w) \<in> (of_nat ` {..<ntrains * np} :: u64 set)" by blast
  then show "w \<in> set (all_flatid np ftrain ntrains)" by (simp add: set_all_flatid)
qed

lemma length_chunk_dests:
  assumes "ntrains * np \<le> 2 ^ 64" "length flatid = length sel"
  shows "length (chunk_dests cs (all_flatid np ftrain ntrains) flatid sel chunk)
           = card ((\<lambda>j. flatid ! j) ` set (chunk_rows cs sel chunk)
                     \<inter> set (all_flatid np ftrain ntrains))"
    and "set (chunk_dests cs (all_flatid np ftrain ntrains) flatid sel chunk)
           = unat ` ((\<lambda>j. flatid ! j) ` set (chunk_rows cs sel chunk)
                       \<inter> set (all_flatid np ftrain ntrains))"
proof -
  let ?F = "(\<lambda>j. flatid ! j) ` set (chunk_rows cs sel chunk)"
  let ?A = "all_flatid np ftrain ntrains"
  have FA: "?F \<inter> set ?A = {w \<in> ?F. unat w < ntrains * np}"
    using in_set_all_flatid [OF assms(1)] by blast
  have "set (chunk_dests cs ?A flatid sel chunk) = {f. f < ntrains * np \<and> ?A ! f \<in> ?F}"
    using assms(2) by (auto simp: chunk_dests_eq length_all_flatid)
  then show s: "set (chunk_dests cs ?A flatid sel chunk) = unat ` (?F \<inter> set ?A)"
    by (simp only: dests_all_flatid [OF assms(1)] FA)
  have "distinct (chunk_dests cs ?A flatid sel chunk)"
    using sorted_chunk_dests [OF assms(2)] by (simp add: strict_sorted_iff)
  then have "length (chunk_dests cs ?A flatid sel chunk) = card (unat ` (?F \<inter> set ?A))"
    using s by (metis distinct_card)
  also have "\<dots> = card (?F \<inter> set ?A)"
    by (rule card_image) (simp add: inj_on_def word_unat_eq_iff)
  finally show "length (chunk_dests cs ?A flatid sel chunk) = card (?F \<inter> set ?A)" .
qed

section \<open>The chunk check\<close>

lemma map_chunks_Cons:
  "map_chunks cs m k aflat flatid sel (c # chunks) layout =
     (if length (chunk_rows cs sel c) \<noteq> length (chunk_dests cs aflat flatid sel c)
      then Inl Mismatch
      else if chunk_rows cs sel c = [] then map_chunks cs m k aflat flatid sel chunks layout
      else map_chunks cs m k aflat flatid sel chunks
             (layout @ [chunk_entry cs m k aflat flatid sel c]))"
  unfolding chunk_rows_def chunk_dests_def chunk_entry_def
  by (simp only: map_chunks.simps Let_def count_true_np_where length_0_conv)

lemma map_chunks_eq:
  "map_chunks cs m k aflat flatid sel chunks layout =
     (if \<forall>c \<in> set chunks. chunk_ok cs aflat flatid sel c
      then Inr (layout @ map (chunk_entry cs m k aflat flatid sel)
                           (filter (\<lambda>c. chunk_rows cs sel c \<noteq> []) chunks))
      else Inl Mismatch)"
proof (induction chunks arbitrary: layout)
  case Nil
  then show ?case by simp
next
  case (Cons c chunks)
  show ?case
    by (simp add: map_chunks_Cons Cons.IH chunk_ok_def del: map_chunks.simps)
qed

lemma chunk_ok_iff:
  assumes "ntrains * np \<le> 2 ^ 64" "length flatid = length sel"
  shows "chunk_ok cs (all_flatid np ftrain ntrains) flatid sel chunk \<longleftrightarrow>
           distinct (map (\<lambda>j. flatid ! j) (chunk_rows cs sel chunk))
           \<and> (\<forall>j \<in> set (chunk_rows cs sel chunk). unat (flatid ! j) < ntrains * np)"
proof -
  let ?rows = "chunk_rows cs sel chunk"
  let ?pos = "map (\<lambda>j. flatid ! j) ?rows"
  let ?A = "set (all_flatid np ftrain ntrains)"
  have len: "length (chunk_dests cs (all_flatid np ftrain ntrains) flatid sel chunk)
               = card (set ?pos \<inter> ?A)"
    using length_chunk_dests(1) [OF assms] by simp
  have c1: "card (set ?pos \<inter> ?A) \<le> card (set ?pos)" by (simp add: card_mono)
  have c2: "card (set ?pos) \<le> length ?rows" using card_length [of ?pos] by simp
  show ?thesis
  proof
    assume "chunk_ok cs (all_flatid np ftrain ntrains) flatid sel chunk"
    then have eq: "length ?rows = card (set ?pos \<inter> ?A)" by (simp add: chunk_ok_def len)
    with c1 c2 have "card (set ?pos) = length ?pos" "card (set ?pos \<inter> ?A) = card (set ?pos)"
      by simp_all
    then have "distinct ?pos" "set ?pos \<inter> ?A = set ?pos"
      by (simp_all add: card_distinct card_subset_eq)
    then show "distinct ?pos \<and> (\<forall>j \<in> set ?rows. unat (flatid ! j) < ntrains * np)"
      using in_set_all_flatid [OF assms(1)] by auto
  next
    assume a: "distinct ?pos \<and> (\<forall>j \<in> set ?rows. unat (flatid ! j) < ntrains * np)"
    then have "set ?pos \<inter> ?A = set ?pos"
      using in_set_all_flatid [OF assms(1)] by auto
    moreover have "card (set ?pos) = length ?rows" using a distinct_card [of ?pos] by simp
    ultimately show "chunk_ok cs (all_flatid np ftrain ntrains) flatid sel chunk"
      by (simp add: chunk_ok_def len)
  qed
qed

lemma chunk_ok_empty:
  assumes "length flatid = length sel" "chunk_rows cs sel chunk = []"
  shows "chunk_ok cs aflat flatid sel chunk" "chunk_dests cs aflat flatid sel chunk = []"
  using assms by (simp_all add: chunk_ok_def chunk_dests_eq)

lemma chunk_rows_selected:
  "j \<in> set (chunk_rows cs sel chunk) \<Longrightarrow> j < length sel \<and> sel ! j"
  by (simp add: chunk_rows_eq)

lemma count_true_pos:
  assumes "j < length sel" "sel ! j"
  shows "count_true sel \<noteq> 0"
proof -
  have "sel ! j \<in> set sel" using assms(1) by (rule nth_mem)
  with assms(2) have "\<exists>b \<in> set sel. b" by blast
  then show ?thesis by (simp add: count_true_def filter_empty_conv)
qed



section \<open>The run, file by file\<close>

lemma run_files_append:
  "run_files np cs ftrain n ltrain m k (pre @ post) st =
     (case run_files np cs ftrain n ltrain m k pre st of
        Inl x \<Rightarrow> Inl x
      | Inr st' \<Rightarrow> run_files np cs ftrain n ltrain m (k + length pre) post st')"
  by (induction pre arbitrary: k st) (simp_all split: sum.splits)

lemma run_modules_append:
  "run_modules np cs ftrain n ltrain m (pre @ post) st =
     (case run_modules np cs ftrain n ltrain m pre st of
        Inl x \<Rightarrow> Inl x
      | Inr st' \<Rightarrow> run_modules np cs ftrain n ltrain (m + length pre) post st')"
  by (induction pre arbitrary: m st) (simp_all split: sum.splits)

lemma run_stops_at_file:
  assumes m: "m < length mods" and k: "k < length (mods ! m)"
    and pre1: "run_modules np cs ftrain n ltrain 0 (take m mods) st0 = Inr st1"
    and pre2: "run_files np cs ftrain n ltrain m 0 (take k (mods ! m)) st1 = Inr st"
    and stop: "process_file np cs ftrain n ltrain m k (mods ! m ! k) st = Inl x"
  shows "run_modules np cs ftrain n ltrain 0 mods st0 = Inl x"
proof -
  have fs: "mods ! m = take k (mods ! m) @ (mods ! m ! k) # drop (Suc k) (mods ! m)"
    using k by (simp add: id_take_nth_drop)
  have rf: "run_files np cs ftrain n ltrain m 0 (mods ! m) st1 = Inl x"
    using k by (subst fs) (simp add: run_files_append pre2 stop)
  have "run_modules np cs ftrain n ltrain 0 (take m mods @ (mods ! m) # drop (Suc m) mods) st0
          = Inl x"
    using m by (simp add: run_modules_append pre1 rf min_absorb2)
  then show ?thesis using m by (simp add: id_take_nth_drop [symmetric])
qed

lemma vds_stopped:
  assumes "timeline (map (map index_tid) mods) = Inr (ftrain, ntrains)"
    and "mods \<noteq> []" "hd mods \<noteq> []"
    and "run_modules np cs ftrain (nat ntrains) (uint ftrain + ntrains) 0 mods
           (start_state np (nat ntrains)) = Inl (e, st)"
  shows "vds np cs mods =
           (Some e, Some \<lparr>trainId = all_trains np ftrain (nat ntrains), cellId = outdset_cid st,
                           pulseId = outdset_pid st, data = None\<rparr>)"
  using assms by (simp add: vds_def start_state_def)

lemma vds_finished:
  assumes "timeline (map (map index_tid) mods) = Inr (ftrain, ntrains)"
    and "mods \<noteq> []" "hd mods \<noteq> []"
    and "run_modules np cs ftrain (nat ntrains) (uint ftrain + ntrains) 0 mods
           (start_state np (nat ntrains)) = Inr st"
  shows "vds np cs mods =
           (None, Some \<lparr>trainId = all_trains np ftrain (nat ntrains), cellId = outdset_cid st,
                         pulseId = outdset_pid st, data = Some (layout_data st)\<rparr>)"
  using assms by (simp add: vds_def start_state_def)

lemma vds_stops_at_file:
  assumes tl: "timeline (map (map index_tid) mods) = Inr (ftrain, ntrains)"
    and at: "state_at np cs mods m k = Some st"
    and stop: "process_file np cs ftrain (nat ntrains) (uint ftrain + ntrains) m k (mods ! m ! k) st
                 = Inl (e, st')"
  shows "vds np cs mods =
           (Some e, Some \<lparr>trainId = all_trains np ftrain (nat ntrains), cellId = outdset_cid st',
                           pulseId = outdset_pid st', data = None\<rparr>)"
proof -
  from at tl have ne: "mods \<noteq> []" "hd mods \<noteq> []" and m: "m < length mods"
    and k: "k < length (mods ! m)"
    by (auto simp: state_at_def split: if_splits)
  from at tl ne m k obtain st1 where
    "run_modules np cs ftrain (nat ntrains) (uint ftrain + ntrains) 0 (take m mods)
       (start_state np (nat ntrains)) = Inr st1"
    "run_files np cs ftrain (nat ntrains) (uint ftrain + ntrains) m 0 (take k (mods ! m)) st1
       = Inr st"
    by (auto simp: state_at_def split: sum.splits)
  then have "run_modules np cs ftrain (nat ntrains) (uint ftrain + ntrains) 0 mods
               (start_state np (nat ntrains)) = Inl (e, st')"
    using run_stops_at_file [OF m k _ _ stop] by blast
  then show ?thesis by (rule vds_stopped [OF tl ne])
qed

lemma process_file_mismatch:
  assumes len: "length (image_cid f) = length (image_tid f)"
    and c: "chunk < num_chunks (length (image_tid f)) cs"
    and bad: "\<not> chunk_ok cs (all_flatid np ftrain n) (file_flatid np ftrain f)
                (file_sel np ftrain ntrains f) chunk"
  shows "process_file np cs ftrain n (uint ftrain + ntrains) m k f st = Inl (Mismatch, st)"
proof -
  let ?sel = "file_sel np ftrain ntrains f"
  let ?flatid = "file_flatid np ftrain f"
  have ls: "length ?sel = length (image_tid f)" by (simp add: file_sel_def validator_length)
  have lf: "length ?flatid = length ?sel"
    using len by (simp add: file_flatid_def length_flat_ids ls)
  have "chunk_rows cs ?sel chunk \<noteq> []" using bad chunk_ok_empty(1) [OF lf] by blast
  then obtain j where "j \<in> set (chunk_rows cs ?sel chunk)" by (meson last_in_set)
  then have nz: "count_true ?sel \<noteq> 0"
    using chunk_rows_selected count_true_pos by blast
  have "map_chunks cs m k (all_flatid np ftrain n) ?flatid ?sel
          [0..<num_chunks (length ?sel) cs] (layout_data st) = Inl Mismatch"
    using c bad by (auto simp: map_chunks_eq ls)
  then show ?thesis
    using nz by (simp add: process_file_def Let_def file_sel_def file_flatid_def)
qed

section \<open>A chunk that fails the check\<close>

lemma timeline_error: "timeline mods = Inl e \<Longrightarrow> e = ValueError"
proof -
  have sf: "scan_files flist s = Inl e \<Longrightarrow> e = ValueError" for flist s e
  proof (induction flist arbitrary: s)
    case Nil
    then show ?case by simp
  next
    case (Cons tid rest)
    obtain tmin tmax ftrain where s: "s = (tmin, tmax, ftrain)" by (metis prod_cases3)
    from Cons show ?case unfolding s by (auto split: if_splits)
  qed
  have sm: "scan_modules ms s = Inl e \<Longrightarrow> e = ValueError" for ms s e
  proof (induction ms arbitrary: s)
    case Nil
    then show ?case by simp
  next
    case (Cons flist ms)
    obtain ntrains ftrain where s: "s = (ntrains, ftrain)" by (cases s)
    from Cons show ?case unfolding s by (auto split: sum.splits dest: sf)
  qed
  show "timeline mods = Inl e \<Longrightarrow> e = ValueError"
    by (auto simp: timeline_def split: sum.splits dest: sm)
qed

lemma bad_chunk_aborts_run:
  assumes tl: "timeline (map (map index_tid) mods) = Inr (ftrain, ntrains)"
    and at: "state_at np cs mods m k = Some st"
    and len: "length (image_cid (mods ! m ! k)) = length (image_tid (mods ! m ! k))"
    and c: "chunk < num_chunks (length (image_tid (mods ! m ! k))) cs"
    and bad: "\<not> chunk_ok cs (all_flatid np ftrain (nat ntrains))
                (file_flatid np ftrain (mods ! m ! k)) (file_sel np ftrain ntrains (mods ! m ! k))
                chunk"
  shows "vds np cs mods =
           (Some Mismatch,
            Some \<lparr>trainId = all_trains np ftrain (nat ntrains), cellId = outdset_cid st,
                   pulseId = outdset_pid st, data = None\<rparr>)"
  using vds_stops_at_file [OF tl at process_file_mismatch [OF len c bad]] .

lemma file_lengths:
  assumes "length (image_cid f) = length (image_tid f)"
  shows "length (file_sel np ftrain ntrains f) = length (image_tid f)"
    and "length (file_flatid np ftrain f) = length (file_sel np ftrain ntrains f)"
  using assms by (simp_all add: file_sel_def file_flatid_def validator_length length_flat_ids)

text \<open>
  Claim C5. When the run gets to a file one of whose chunks has a number of selected rows
  different from the number of distinct positions of those rows that lie in the canonical
  index, the whole run ends with the mismatch message. A chunk with no selected row passes
  the check, and when every chunk passes, the layout gains one entry for each chunk that has
  a selected row and none for the others.
\<close>

theorem chunk_mismatch_aborts_run:
  "(timeline (map (map index_tid) mods) = Inr (ftrain, ntrains)
      \<and> state_at np cs mods m k = Some st
      \<and> nat ntrains * np \<le> 2 ^ 64
      \<and> length (image_cid (mods ! m ! k)) = length (image_tid (mods ! m ! k))
      \<and> chunk < num_chunks (length (image_tid (mods ! m ! k))) cs
      \<and> length (chunk_rows cs (file_sel np ftrain ntrains (mods ! m ! k)) chunk)
          \<noteq> card ((\<lambda>j. file_flatid np ftrain (mods ! m ! k) ! j)
                      ` set (chunk_rows cs (file_sel np ftrain ntrains (mods ! m ! k)) chunk)
                    \<inter> set (all_flatid np ftrain (nat ntrains)))
      \<longrightarrow> fst (vds np cs mods) = Some Mismatch)
   \<and> (length flatid = length sel \<and> chunk_rows cs sel chunk = []
        \<longrightarrow> chunk_ok cs aflat flatid sel chunk)
   \<and> ((\<forall>c \<in> set chunks. chunk_ok cs aflat flatid sel c)
        \<longrightarrow> map_chunks cs m k aflat flatid sel chunks layout
            = Inr (layout @ map (chunk_entry cs m k aflat flatid sel)
                                (filter (\<lambda>c. chunk_rows cs sel c \<noteq> []) chunks)))"
proof -
  have a: "fst (vds np cs mods) = Some Mismatch"
    if tl: "timeline (map (map index_tid) mods) = Inr (ftrain, ntrains)"
      and at: "state_at np cs mods m k = Some st"
      and N: "nat ntrains * np \<le> 2 ^ 64"
      and len: "length (image_cid (mods ! m ! k)) = length (image_tid (mods ! m ! k))"
      and c: "chunk < num_chunks (length (image_tid (mods ! m ! k))) cs"
      and ne: "length (chunk_rows cs (file_sel np ftrain ntrains (mods ! m ! k)) chunk)
          \<noteq> card ((\<lambda>j. file_flatid np ftrain (mods ! m ! k) ! j)
                      ` set (chunk_rows cs (file_sel np ftrain ntrains (mods ! m ! k)) chunk)
                    \<inter> set (all_flatid np ftrain (nat ntrains)))"
  proof -
    have "\<not> chunk_ok cs (all_flatid np ftrain (nat ntrains))
                (file_flatid np ftrain (mods ! m ! k)) (file_sel np ftrain ntrains (mods ! m ! k))
                chunk"
      using ne length_chunk_dests(1) [OF N file_lengths(2) [OF len]]
      by (simp add: chunk_ok_def)
    then show ?thesis using bad_chunk_aborts_run [OF tl at len c] by simp
  qed
  have b: "length flatid = length sel \<and> chunk_rows cs sel chunk = []
        \<longrightarrow> chunk_ok cs aflat flatid sel chunk"
    using chunk_ok_empty(1) by blast
  have c: "(\<forall>c \<in> set chunks. chunk_ok cs aflat flatid sel c)
        \<longrightarrow> map_chunks cs m k aflat flatid sel chunks layout
            = Inr (layout @ map (chunk_entry cs m k aflat flatid sel)
                                (filter (\<lambda>c. chunk_rows cs sel c \<noteq> []) chunks))"
    by (simp add: map_chunks_eq)
  from a b c show ?thesis by blast
qed

lemma dup_file_timeline: "timeline (map (map index_tid) [[dup_file]]) = Inr (1000, 4)"
  by (simp add: dup_file_def timeline_def amin_def amax_def MAX_TRAINS_IN_FILE_def maxsize_def
      span_diff_def)

lemma dup_file_state: "state_at npulses chunk_size [[dup_file]] 0 0 = Some (start_state npulses 4)"
  by (simp add: state_at_def dup_file_timeline [simplified])

lemma dup_file_sel: "file_sel npulses 1000 4 dup_file = [True, True]"
  by (simp add: file_sel_def dup_file_def validator_def dedup_def sel_range_def np_unique_def
      first_index_def where_eq_def set_false_def npulses_def)

lemma dup_file_flatid: "file_flatid npulses 1000 dup_file = [0, 0]"
  by (simp add: file_flatid_def dup_file_def flat_ids_def)

lemma dup_file_rows: "chunk_rows chunk_size [True, True] 0 = [0, 1]"
  by (simp add: chunk_rows_eq chunk_size_def upt_rec)

lemma dup_file_chunk: "0 < num_chunks (length (image_tid dup_file)) chunk_size"
  by (simp add: num_chunks_def dup_file_def chunk_size_def)

lemma main_dup_file:
  "main [[dup_file]] =
     (Some Mismatch,
      Some \<lparr>trainId = all_trains npulses 1000 4, cellId = replicate (4 * npulses) fill16,
             pulseId = replicate (4 * npulses) fill64, data = None\<rparr>)"
proof -
  have N: "(4 :: nat) * npulses \<le> 2 ^ 64" by (simp add: npulses_def)
  have len: "length (image_cid ([[dup_file]] ! 0 ! 0)) = length (image_tid ([[dup_file]] ! 0 ! 0))"
    by (simp add: dup_file_def)
  have "\<not> chunk_ok chunk_size (all_flatid npulses 1000 4) [0, 0] [True, True] 0"
    using chunk_ok_iff [OF N, of "[0, 0]" "[True, True]" chunk_size 1000 0]
    by (simp add: dup_file_rows)
  then have bad: "\<not> chunk_ok chunk_size (all_flatid npulses 1000 (nat 4))
               (file_flatid npulses 1000 ([[dup_file]] ! 0 ! 0))
               (file_sel npulses 1000 4 ([[dup_file]] ! 0 ! 0)) 0"
    by (simp add: dup_file_sel dup_file_flatid)
  have c: "0 < num_chunks (length (image_tid ([[dup_file]] ! 0 ! 0))) chunk_size"
    using dup_file_chunk by simp
  show ?thesis
    using bad_chunk_aborts_run [OF dup_file_timeline dup_file_state len c bad]
    by (simp add: main_def start_state_def)
qed

theorem chunk_mismatch_aborts_run_witness:
  "timeline (map (map index_tid) [[dup_file]]) = Inr (1000, 4)
   \<and> state_at npulses chunk_size [[dup_file]] 0 0 = Some (start_state npulses 4)
   \<and> fst (vds npulses chunk_size [[dup_file]]) = Some Mismatch
   \<and> chunk_ok 2 [] [5, 6] [False, False] 0
   \<and> map_chunks 2 0 0 (all_flatid 2 1000 4) [1, 9] [True, False] [0] []
       = Inr [\<lparr>vm_module = 0, vm_dest = [1], vm_file = 0, vm_rows = [0]\<rparr>]"
proof -
  note T = chunk_mismatch_aborts_run [where mods = "[[dup_file]]" and ftrain = 1000
      and ntrains = 4 and np = npulses and cs = chunk_size and m = 0 and k = 0
      and st = "start_state npulses 4" and chunk = 0]
  have h3: "nat 4 * npulses \<le> 2 ^ 64" by (simp add: npulses_def)
  have h4: "length (image_cid ([[dup_file]] ! 0 ! 0)) = length (image_tid ([[dup_file]] ! 0 ! 0))"
    by (simp add: dup_file_def)
  have h5: "0 < num_chunks (length (image_tid ([[dup_file]] ! 0 ! 0))) chunk_size"
    using dup_file_chunk by simp
  have "card ({0 :: u64} \<inter> set (all_flatid npulses 1000 (nat 4))) \<le> card {0 :: u64}"
    by (intro card_mono) simp_all
  then have h6: "length (chunk_rows chunk_size (file_sel npulses 1000 4 ([[dup_file]] ! 0 ! 0)) 0)
          \<noteq> card ((\<lambda>j. file_flatid npulses 1000 ([[dup_file]] ! 0 ! 0) ! j)
                      ` set (chunk_rows chunk_size (file_sel npulses 1000 4 ([[dup_file]] ! 0 ! 0)) 0)
                    \<inter> set (all_flatid npulses 1000 (nat 4)))"
    by (simp add: dup_file_sel dup_file_flatid dup_file_rows)
  have a: "fst (vds npulses chunk_size [[dup_file]]) = Some Mismatch"
    using T [where flatid = "[]" and sel = "[]" and chunks = "[]"]
      dup_file_timeline dup_file_state h3 h4 h5 h6 by blast
  note U = chunk_mismatch_aborts_run [where cs = 2 and aflat = "[]" and flatid = "[5, 6]"
      and sel = "[False, False]" and chunk = 0]
  have "length [5, 6 :: u64] = length [False, False] \<and> chunk_rows 2 [False, False] 0 = []"
    by (simp add: chunk_rows_eq)
  then have b: "chunk_ok 2 [] [5, 6] [False, False] 0" using U by blast
  note V = chunk_mismatch_aborts_run [where cs = 2 and m = 0 and k = 0
      and aflat = "all_flatid 2 1000 4" and flatid = "[1, 9]" and sel = "[True, False]"
      and chunks = "[0]" and layout = "[]"]
  have rows: "chunk_rows 2 [True, False] 0 = [0]" by (simp add: chunk_rows_eq upt_rec)
  have dests: "chunk_dests 2 (all_flatid 2 1000 4) [1, 9] [True, False] 0 = [1]"
    by code_simp
  have "\<forall>c \<in> set [0]. chunk_ok 2 (all_flatid 2 1000 4) [1, 9] [True, False] c"
    by (simp add: chunk_ok_def rows dests)
  then have "map_chunks 2 0 0 (all_flatid 2 1000 4) [1, 9] [True, False] [0] []
      = Inr ([] @ map (chunk_entry 2 0 0 (all_flatid 2 1000 4) [1, 9] [True, False])
                     (filter (\<lambda>c. chunk_rows 2 [True, False] c \<noteq> []) [0]))"
    using V by blast
  then have c: "map_chunks 2 0 0 (all_flatid 2 1000 4) [1, 9] [True, False] [0] []
       = Inr [\<lparr>vm_module = 0, vm_dest = [1], vm_file = 0, vm_rows = [0]\<rparr>]"
    by (simp add: rows dests chunk_entry_def)
  from dup_file_timeline dup_file_state a b c show ?thesis by blast
qed

section \<open>What an aborted run leaves, and duplicates within a chunk\<close>

text \<open>
  Claim C3, as the script has it. A run that ends with the mismatch message has opened the
  output file for writing before, and leaves it in place: the file exists, with the three id
  arrays and without the virtual data set.
\<close>

theorem mismatch_leaves_output_file:
  "fst (vds np cs mods) = Some Mismatch \<longrightarrow>
     (\<exists>out. snd (vds np cs mods) = Some out \<and> data out = None)"
proof
  assume mm: "fst (vds np cs mods) = Some Mismatch"
  show "\<exists>out. snd (vds np cs mods) = Some out \<and> data out = None"
  proof (cases "timeline (map (map index_tid) mods)")
    case (Inl e)
    then have "e = ValueError" by (rule timeline_error)
    with Inl mm show ?thesis by (simp add: vds_def)
  next
    case (Inr r)
    obtain ftrain ntrains where r: "r = (ftrain, ntrains)" by (cases r)
    show ?thesis
    proof (cases "mods = [] \<or> hd mods = []")
      case True
      with Inr r mm show ?thesis by (simp add: vds_def)
    next
      case False
      with Inr r mm show ?thesis
        by (auto simp: vds_def Let_def split: sum.splits)
    qed
  qed
qed

theorem mismatch_leaves_output_file_witness:
  "fst (vds npulses chunk_size [[dup_file]]) = Some Mismatch
   \<and> (\<exists>out. snd (vds npulses chunk_size [[dup_file]]) = Some out \<and> data out = None)"
proof -
  have "fst (vds npulses chunk_size [[dup_file]]) = Some Mismatch"
    using main_dup_file by (simp add: main_def)
  then show ?thesis
    using mismatch_leaves_output_file [of npulses chunk_size "[[dup_file]]"] by blast
qed

text \<open>
  Claim C3 as stated fails: the run on the single file \<open>dup_file\<close> ends with the mismatch
  message and leaves the output file with its id arrays.
\<close>

theorem mismatch_leaves_output_file_counterexample:
  "main [[dup_file]] =
     (Some Mismatch,
      Some \<lparr>trainId = all_trains npulses 1000 4, cellId = replicate (4 * npulses) fill16,
             pulseId = replicate (4 * npulses) fill64, data = None\<rparr>)"
  by (rule main_dup_file)

lemma div_chunk:
  fixes j :: nat
  assumes "0 < cs"
  shows "chunk * cs \<le> j \<and> j < (chunk + 1) * cs \<longleftrightarrow> j div cs = chunk"
proof
  assume "chunk * cs \<le> j \<and> j < (chunk + 1) * cs"
  then show "j div cs = chunk"
    using block_div_mod(1) [of chunk cs j] by simp
next
  assume e: "j div cs = chunk"
  have m: "j mod cs < cs" using assms by simp
  have d: "chunk * cs + j mod cs = j" using e by (metis div_mult_mod_eq)
  have "chunk * cs \<le> j" using d by linarith
  moreover have "j < chunk * cs + cs" using d m by linarith
  ultimately show "chunk * cs \<le> j \<and> j < (chunk + 1) * cs" by simp
qed

lemma chunk_rows_iff:
  assumes "0 < cs"
  shows "j \<in> set (chunk_rows cs sel chunk) \<longleftrightarrow> j < length sel \<and> j div cs = chunk \<and> sel ! j"
  using div_chunk [OF assms, of chunk j] by (auto simp: chunk_rows_eq)

lemma chunk_of_row:
  assumes "0 < cs" "j < n"
  shows "j div cs < num_chunks n cs"
proof -
  have d: "j div cs * cs + j mod cs = j" by (rule div_mult_mod_eq)
  have "j div cs * cs + cs \<le> n + cs - 1" using d assms by linarith
  then have "(j div cs * cs + cs) div cs \<le> (n + cs - 1) div cs" by (rule div_le_mono)
  moreover have "(j div cs * cs + cs) div cs = Suc (j div cs)" using assms(1) by simp
  ultimately show ?thesis by (simp add: num_chunks_def)
qed

text \<open>
  Claim C6, as the script has it. When two distinct kept rows of a file lie in the same chunk
  and have the same position, the run ends with the mismatch message once it gets to that
  file.
\<close>

theorem duplicate_in_chunk_aborts_run:
  "timeline (map (map index_tid) mods) = Inr (ftrain, ntrains)
     \<and> state_at np cs mods m k = Some st
     \<and> nat ntrains * np \<le> 2 ^ 64 \<and> 0 < cs
     \<and> length (image_cid (mods ! m ! k)) = length (image_tid (mods ! m ! k))
     \<and> i < length (image_tid (mods ! m ! k)) \<and> j < length (image_tid (mods ! m ! k))
     \<and> i \<noteq> j \<and> i div cs = j div cs
     \<and> file_sel np ftrain ntrains (mods ! m ! k) ! i
     \<and> file_sel np ftrain ntrains (mods ! m ! k) ! j
     \<and> file_flatid np ftrain (mods ! m ! k) ! i = file_flatid np ftrain (mods ! m ! k) ! j
   \<longrightarrow> fst (vds np cs mods) = Some Mismatch"
proof (intro impI, elim conjE)
  let ?f = "mods ! m ! k"
  let ?sel = "file_sel np ftrain ntrains ?f" and ?flatid = "file_flatid np ftrain ?f"
  assume tl: "timeline (map (map index_tid) mods) = Inr (ftrain, ntrains)"
    and at: "state_at np cs mods m k = Some st"
    and N: "nat ntrains * np \<le> 2 ^ 64" and cs: "0 < cs"
    and len: "length (image_cid ?f) = length (image_tid ?f)"
    and i: "i < length (image_tid ?f)" and j: "j < length (image_tid ?f)"
    and ij: "i \<noteq> j" "i div cs = j div cs" and si: "?sel ! i" and sj: "?sel ! j"
    and eq: "?flatid ! i = ?flatid ! j"
  let ?rows = "chunk_rows cs ?sel (i div cs)"
  have mem: "i \<in> set ?rows" "j \<in> set ?rows"
    using i j ij si sj by (simp_all add: chunk_rows_iff [OF cs] file_lengths(1) [OF len])
  have "\<not> inj_on (\<lambda>j. ?flatid ! j) (set ?rows)"
    using mem ij(1) eq by (auto simp: inj_on_def)
  then have "\<not> distinct (map (\<lambda>j. ?flatid ! j) ?rows)" by (simp add: distinct_map)
  then have bad: "\<not> chunk_ok cs (all_flatid np ftrain (nat ntrains)) ?flatid ?sel (i div cs)"
    using chunk_ok_iff [OF N file_lengths(2) [OF len]] by blast
  have c: "i div cs < num_chunks (length (image_tid ?f)) cs" using cs i by (rule chunk_of_row)
  show "fst (vds np cs mods) = Some Mismatch"
    using bad_chunk_aborts_run [OF tl at len c bad] by simp
qed

theorem duplicate_in_chunk_aborts_run_witness:
  "timeline (map (map index_tid) [[dup_file]]) = Inr (1000, 4)
   \<and> state_at npulses chunk_size [[dup_file]] 0 0 = Some (start_state npulses 4)
   \<and> file_sel npulses 1000 4 dup_file = [True, True]
   \<and> file_flatid npulses 1000 dup_file = [0, 0]
   \<and> fst (vds npulses chunk_size [[dup_file]]) = Some Mismatch"
proof -
  note T = duplicate_in_chunk_aborts_run [where mods = "[[dup_file]]" and ftrain = 1000
      and ntrains = 4 and np = npulses and cs = chunk_size and m = 0 and k = 0
      and st = "start_state npulses 4" and i = 0 and j = 1]
  have h: "nat 4 * npulses \<le> 2 ^ 64 \<and> 0 < chunk_size
     \<and> length (image_cid ([[dup_file]] ! 0 ! 0)) = length (image_tid ([[dup_file]] ! 0 ! 0))
     \<and> 0 < length (image_tid ([[dup_file]] ! 0 ! 0)) \<and> 1 < length (image_tid ([[dup_file]] ! 0 ! 0))
     \<and> (0 :: nat) \<noteq> 1 \<and> 0 div chunk_size = 1 div chunk_size
     \<and> file_sel npulses 1000 4 ([[dup_file]] ! 0 ! 0) ! 0
     \<and> file_sel npulses 1000 4 ([[dup_file]] ! 0 ! 0) ! 1
     \<and> file_flatid npulses 1000 ([[dup_file]] ! 0 ! 0) ! 0
         = file_flatid npulses 1000 ([[dup_file]] ! 0 ! 0) ! 1"
    by (simp add: dup_file_sel dup_file_flatid) (simp add: npulses_def chunk_size_def dup_file_def)
  have "fst (vds npulses chunk_size [[dup_file]]) = Some Mismatch"
    using T dup_file_timeline dup_file_state h by blast
  with dup_file_timeline dup_file_state dup_file_sel dup_file_flatid show ?thesis by blast
qed

section \<open>The order of rows and destinations in a chunk\<close>





end
